theory Spec2Isabelle
  imports Complex_Main "HOL-Library.Sublist"
begin

section \<open>Wire protocol\<close>

text \<open>
  The adapter talks to the simulation server in JSON messages, one command per message
  and one reply per message. A command is the dictionary built by a client method
  (\<^verbatim>\<open>{"cmd": "step", "action": 3}\<close>); the constructor names the \<^verbatim>\<open>cmd\<close> field and
  carries its arguments. \<open>Reset None\<close> is a reset whose dictionary has no seed.
\<close>

datatype cmd =
    Reset "int option"
  | Step int
  | Observe string
  | Last
  | Agents
  | PossibleAgents
  | AgentSelection
  | ObservationSpace string
  | ActionSpace string
  | Rewards
  | Terminations
  | Truncations
  | Infos
  | ActionMask string
  | Render
  | Close
  | Ping
  | EnvInfo

text \<open>Values of an info mapping: arbitrary JSON, carried through unchanged.\<close>

datatype json =
    JNull
  | JBool bool
  | JNum real
  | JStr string
  | JArr "json list"
  | JObj "(string \<times> json) list"

text \<open>
  A bound of a bounded-vector space: a finite number or one of the two infinities
  (Python's \<^verbatim>\<open>json\<close> reads \<^verbatim>\<open>Infinity\<close>, and \<^verbatim>\<open>convert_space\<close> fills missing
  bounds with \<^verbatim>\<open>np.inf\<close>).
\<close>

datatype num = NegInf | Fin real | PosInf

text \<open>
  A space descriptor as the server sends it: \<^verbatim>\<open>{n: 5}\<close> or
  \<^verbatim>\<open>{shape: [7], low: [...], high: [...]}\<close>. A key that is missing is \<open>None\<close>.
  \<open>low\<close> and \<open>high\<close> are flat lists, as in the module's docstring.
\<close>

record space_def =
  sd_n :: "int option"
  sd_shape :: "nat list option"
  sd_low :: "num list option"
  sd_high :: "num list option"

text \<open>
  A reply dictionary, one optional entry per key the client reads. The entries that the
  code hands on as they are have the types of the client's annotations (\<^verbatim>\<open>List[str]\<close>,
  \<^verbatim>\<open>Dict[str, float]\<close>, ...); a dictionary is an association list in the order
  received. The four entries that \<^verbatim>\<open>last\<close> converts with \<^verbatim>\<open>float\<close>, \<^verbatim>\<open>bool\<close> and
  \<^verbatim>\<open>dict\<close> are any JSON value, since the conversion may fail.
\<close>

record reply =
  r_error :: "string option"
  r_observation :: "real list option"
  r_reward :: "json option"
  r_terminated :: "json option"
  r_truncated :: "json option"
  r_info :: "json option"
  r_agents :: "string list option"
  r_possible_agents :: "string list option"
  r_agent :: "string option"
  r_space :: "space_def option"
  r_rewards :: "(string \<times> real) list option"
  r_terminations :: "(string \<times> bool) list option"
  r_truncations :: "(string \<times> bool) list option"
  r_infos :: "(string \<times> (string \<times> json) list) list option"
  r_mask :: "bool list option"

definition ack :: reply where
  "ack = \<lparr> r_error = None, r_observation = None, r_reward = None, r_terminated = None,
           r_truncated = None, r_info = None, r_agents = None, r_possible_agents = None,
           r_agent = None, r_space = None, r_rewards = None, r_terminations = None,
           r_truncations = None, r_infos = None, r_mask = None \<rparr>"

text \<open>
  What \<^verbatim>\<open>ws.send\<close> followed by \<^verbatim>\<open>ws.recv\<close> and \<^verbatim>\<open>json.loads\<close> gives: a reply
  dictionary, or an exception of the websocket library (timeout, connection lost,
  malformed text).
\<close>

datatype recv = Reply reply | Dropped

text \<open>
  What is observable on the socket: a connection being opened, a command being sent, the
  socket being closed.
\<close>

datatype event = Connect | Send cmd | Hangup

text \<open>
  The exceptions of the source. Both \<^verbatim>\<open>RuntimeError\<close>s of \<^verbatim>\<open>_send\<close> carry their
  message; \<open>KeyError\<close> is a reply without the key a method indexes; \<open>TypeError\<close>,
  \<open>ValueError\<close> and \<open>OverflowError\<close> are what Python's conversions raise;
  \<open>TransportError\<close> and \<open>ConnectionError\<close> come from the websocket library.
\<close>

datatype error =
    RuntimeError string
  | KeyError string
  | ValueError string
  | TypeError string
  | OverflowError
  | TransportError
  | ConnectionError

text \<open>
  Everything outside the repository, as parameters: the server is a state machine that
  accepts or refuses a connection, answers a command and sees the socket close;
  \<open>float32\<close> is numpy's conversion of a Python float to \<^verbatim>\<open>np.float32\<close> (read back as
  a Python float), which may round and may overflow to an infinity. The last three are
  the parts of Python's built-in conversions that depend on more than the kind of the
  value: \<^verbatim>\<open>float\<close> of a JSON number (an integer too large for a float raises
  \<^verbatim>\<open>OverflowError\<close>, a large one is rounded), \<^verbatim>\<open>float\<close> of a string (which parses
  it or raises \<^verbatim>\<open>ValueError\<close>), and \<^verbatim>\<open>dict\<close> of a non-empty list (which takes its
  elements as key-value pairs or raises).
\<close>

record 's extern =
  accept :: "'s \<Rightarrow> 's option"
  respond :: "cmd \<Rightarrow> 's \<Rightarrow> recv \<times> 's"
  hangup :: "'s \<Rightarrow> 's"
  float32 :: "real \<Rightarrow> num"
  float_of_number :: "real \<Rightarrow> error + real"
  float_of_string :: "string \<Rightarrow> error + real"
  dict_of_items :: "json list \<Rightarrow> error + (json \<times> json) list"

record 's world =
  server :: 's
  wire :: "event list"

section \<open>client.py: HyperTokenClient\<close>

datatype sock = Sock

record client =
  url :: string
  ws :: "sock option"

definition init_client :: "string \<Rightarrow> client" where
  "init_client u = \<lparr> url = u, ws = None \<rparr>"

definition not_connected :: error where
  "not_connected = RuntimeError ''Not connected. Call connect() first.''"

definition disconnect :: "'s extern \<Rightarrow> client \<Rightarrow> 's world \<Rightarrow> client \<times> 's world" where
  "disconnect N c w =
     (case ws c of
        None \<Rightarrow> (c, w)
      | Some _ \<Rightarrow> (c\<lparr>ws := None\<rparr>,
                   w\<lparr>server := hangup N (server w), wire := wire w @ [Hangup]\<rparr>))"

definition connect :: "'s extern \<Rightarrow> client \<Rightarrow> 's world \<Rightarrow> (error + unit) \<times> client \<times> 's world" where
  "connect N c w =
     (case (if ws c \<noteq> None then disconnect N c w else (c, w)) of
        (c1, w1) \<Rightarrow>
          (case accept N (server w1) of
             None \<Rightarrow> (Inl ConnectionError, c1, w1)
           | Some s \<Rightarrow> (Inr (), c1\<lparr>ws := Some Sock\<rparr>,
                        w1\<lparr>server := s, wire := wire w1 @ [Connect]\<rparr>)))"

text \<open>\<^verbatim>\<open>_send\<close>: the one place where a message leaves the client.\<close>

definition send :: "'s extern \<Rightarrow> client \<Rightarrow> cmd \<Rightarrow> 's world \<Rightarrow> (error + reply) \<times> 's world" where
  "send N c m w =
     (case ws c of
        None \<Rightarrow> (Inl not_connected, w)
      | Some _ \<Rightarrow>
          (case respond N m (server w) of
             (rv, s) \<Rightarrow>
               (let w1 = w\<lparr>server := s, wire := wire w @ [Send m]\<rparr> in
                case rv of
                  Dropped \<Rightarrow> (Inl TransportError, w1)
                | Reply r \<Rightarrow>
                    (case r_error r of
                       Some e \<Rightarrow> (Inl (RuntimeError (''Server error: '' @ e)), w1)
                     | None \<Rightarrow> (Inr r, w1)))))"

text \<open>\<^verbatim>\<open>self._send(cmd)[key]\<close>: a missing key raises \<^verbatim>\<open>KeyError\<close>.\<close>

definition send_get ::
  "'s extern \<Rightarrow> client \<Rightarrow> cmd \<Rightarrow> string \<Rightarrow> (reply \<Rightarrow> 'a option) \<Rightarrow> 's world \<Rightarrow> (error + 'a) \<times> 's world" where
  "send_get N c m key sel w =
     (case send N c m w of
        (Inl err, w1) \<Rightarrow> (Inl err, w1)
      | (Inr r, w1) \<Rightarrow>
          (case sel r of None \<Rightarrow> (Inl (KeyError key), w1) | Some v \<Rightarrow> (Inr v, w1)))"

text \<open>A method that sends and throws the reply away.\<close>

definition send_unit :: "'s extern \<Rightarrow> client \<Rightarrow> cmd \<Rightarrow> 's world \<Rightarrow> (error + unit) \<times> 's world" where
  "send_unit N c m w =
     (case send N c m w of (Inl err, w1) \<Rightarrow> (Inl err, w1) | (Inr _, w1) \<Rightarrow> (Inr (), w1))"

definition client_reset :: "'s extern \<Rightarrow> client \<Rightarrow> int option \<Rightarrow> 's world \<Rightarrow> (error + unit) \<times> 's world" where
  "client_reset N c seed w = send_unit N c (Reset seed) w"

definition client_step :: "'s extern \<Rightarrow> client \<Rightarrow> int \<Rightarrow> 's world \<Rightarrow> (error + unit) \<times> 's world" where
  "client_step N c action w = send_unit N c (Step action) w"

text \<open>\<^verbatim>\<open>observe\<close> returns \<^verbatim>\<open>np.array(response["observation"], dtype=np.float32)\<close>.\<close>

definition client_observe :: "'s extern \<Rightarrow> client \<Rightarrow> string \<Rightarrow> 's world \<Rightarrow> (error + num list) \<times> 's world" where
  "client_observe N c agent w =
     (case send_get N c (Observe agent) ''observation'' r_observation w of
        (Inl err, w1) \<Rightarrow> (Inl err, w1)
      | (Inr ob, w1) \<Rightarrow> (Inr (map (float32 N) ob), w1))"

definition client_last :: "'s extern \<Rightarrow> client \<Rightarrow> 's world \<Rightarrow> (error + reply) \<times> 's world" where
  "client_last N c w = send N c Last w"

definition client_agents :: "'s extern \<Rightarrow> client \<Rightarrow> 's world \<Rightarrow> (error + string list) \<times> 's world" where
  "client_agents N c w = send_get N c Agents ''agents'' r_agents w"

definition client_possible_agents :: "'s extern \<Rightarrow> client \<Rightarrow> 's world \<Rightarrow> (error + string list) \<times> 's world" where
  "client_possible_agents N c w = send_get N c PossibleAgents ''possible_agents'' r_possible_agents w"

definition client_agent_selection :: "'s extern \<Rightarrow> client \<Rightarrow> 's world \<Rightarrow> (error + string) \<times> 's world" where
  "client_agent_selection N c w = send_get N c AgentSelection ''agent'' r_agent w"

definition client_observation_space :: "'s extern \<Rightarrow> client \<Rightarrow> string \<Rightarrow> 's world \<Rightarrow> (error + space_def) \<times> 's world" where
  "client_observation_space N c agent w = send_get N c (ObservationSpace agent) ''space'' r_space w"

definition client_action_space :: "'s extern \<Rightarrow> client \<Rightarrow> string \<Rightarrow> 's world \<Rightarrow> (error + space_def) \<times> 's world" where
  "client_action_space N c agent w = send_get N c (ActionSpace agent) ''space'' r_space w"

definition client_rewards :: "'s extern \<Rightarrow> client \<Rightarrow> 's world \<Rightarrow> (error + (string \<times> real) list) \<times> 's world" where
  "client_rewards N c w = send_get N c Rewards ''rewards'' r_rewards w"

definition client_terminations :: "'s extern \<Rightarrow> client \<Rightarrow> 's world \<Rightarrow> (error + (string \<times> bool) list) \<times> 's world" where
  "client_terminations N c w = send_get N c Terminations ''terminations'' r_terminations w"

definition client_truncations :: "'s extern \<Rightarrow> client \<Rightarrow> 's world \<Rightarrow> (error + (string \<times> bool) list) \<times> 's world" where
  "client_truncations N c w = send_get N c Truncations ''truncations'' r_truncations w"

definition client_infos ::
  "'s extern \<Rightarrow> client \<Rightarrow> 's world \<Rightarrow> (error + (string \<times> (string \<times> json) list) list) \<times> 's world" where
  "client_infos N c w = send_get N c Infos ''infos'' r_infos w"

text \<open>
  \<^verbatim>\<open>mask = response.get("mask"); return np.array(mask, dtype=bool) if mask else None\<close>:
  the test is Python truthiness, so an empty list counts as no mask.
\<close>

definition client_action_mask :: "'s extern \<Rightarrow> client \<Rightarrow> string \<Rightarrow> 's world \<Rightarrow> (error + bool list option) \<times> 's world" where
  "client_action_mask N c agent w =
     (case send N c (ActionMask agent) w of
        (Inl err, w1) \<Rightarrow> (Inl err, w1)
      | (Inr r, w1) \<Rightarrow>
          (case r_mask r of
             None \<Rightarrow> (Inr None, w1)
           | Some bs \<Rightarrow> (if bs \<noteq> [] then (Inr (Some bs), w1) else (Inr None, w1))))"

definition client_render :: "'s extern \<Rightarrow> client \<Rightarrow> 's world \<Rightarrow> (error + unit) \<times> 's world" where
  "client_render N c w = send_unit N c Render w"

text \<open>\<^verbatim>\<open>close\<close>: whatever \<^verbatim>\<open>_send\<close> raises is caught and dropped, then the socket is closed.\<close>

definition client_close :: "'s extern \<Rightarrow> client \<Rightarrow> 's world \<Rightarrow> (error + unit) \<times> client \<times> 's world" where
  "client_close N c w =
     (case send N c Close w of
        (_, w1) \<Rightarrow> (case disconnect N c w1 of (c2, w2) \<Rightarrow> (Inr (), c2, w2)))"

text \<open>\<^verbatim>\<open>ping\<close> returns the elapsed wall-clock time, which is not modelled.\<close>

definition client_ping :: "'s extern \<Rightarrow> client \<Rightarrow> 's world \<Rightarrow> (error + unit) \<times> 's world" where
  "client_ping N c w = send_unit N c Ping w"

definition client_env_info :: "'s extern \<Rightarrow> client \<Rightarrow> 's world \<Rightarrow> (error + reply) \<times> 's world" where
  "client_env_info N c w = send N c EnvInfo w"

section \<open>spaces.py\<close>

text \<open>
  The space objects of gymnasium that the module builds and reads: \<^verbatim>\<open>Discrete(n)\<close>, and
  \<^verbatim>\<open>Box(low, high, shape)\<close> with its two \<^verbatim>\<open>float32\<close> arrays kept flat (row-major).
  \<open>OtherSpace\<close> stands for every other gymnasium space. The checks that gymnasium's
  own constructors make on their arguments are outside the repository and not modelled.
\<close>

datatype space =
    Discrete int
  | Box "nat list" "num list" "num list"
  | OtherSpace

text \<open>\<^verbatim>\<open>np.array(xs, dtype=np.float32)\<close>, elementwise; an infinity stays what it is.\<close>

fun to_float32 :: "'s extern \<Rightarrow> num \<Rightarrow> num" where
  "to_float32 N NegInf = NegInf"
| "to_float32 N (Fin x) = float32 N x"
| "to_float32 N PosInf = PosInf"

text \<open>
  \<^verbatim>\<open>.reshape(shape)\<close> raises \<^verbatim>\<open>ValueError\<close> unless the array has as many elements as
  the shape asks for; the empty shape asks for one.
\<close>

definition reshape :: "num list \<Rightarrow> nat list \<Rightarrow> error + num list" where
  "reshape xs shape =
     (if length xs = prod_list shape then Inr xs else Inl (ValueError ''cannot reshape array''))"

definition convert_space :: "'s extern \<Rightarrow> space_def \<Rightarrow> error + space" where
  "convert_space N space_def =
     (case sd_n space_def of
        Some n \<Rightarrow> Inr (Discrete n)
      | None \<Rightarrow>
          (case sd_shape space_def of
             Some shape \<Rightarrow>
               (let size = (if shape \<noteq> [] then prod_list shape else 1);
                    low = (case sd_low space_def of None \<Rightarrow> replicate size NegInf | Some l \<Rightarrow> l);
                    high = (case sd_high space_def of None \<Rightarrow> replicate size PosInf | Some h \<Rightarrow> h)
                in case reshape (map (to_float32 N) low) shape of
                     Inl err \<Rightarrow> Inl err
                   | Inr low' \<Rightarrow>
                       (case reshape (map (to_float32 N) high) shape of
                          Inl err \<Rightarrow> Inl err
                        | Inr high' \<Rightarrow> Inr (Box shape low' high')))
           | None \<Rightarrow> Inl (ValueError ''Unknown space format'')))"

definition space_to_dict :: "space \<Rightarrow> error + space_def" where
  "space_to_dict space =
     (case space of
        Discrete n \<Rightarrow> Inr \<lparr> sd_n = Some n, sd_shape = None, sd_low = None, sd_high = None \<rparr>
      | Box shape low high \<Rightarrow>
          Inr \<lparr> sd_n = None, sd_shape = Some shape, sd_low = Some low, sd_high = Some high \<rparr>
      | OtherSpace \<Rightarrow> Inl (ValueError ''Unknown space type''))"

section \<open>env.py: HyperTokenAECEnv\<close>

text \<open>
  The adapter object: its client, its render mode, and the three caches that
  \<^verbatim>\<open>_connect_and_init\<close> fills. The fields with a leading underscore in the source have
  the prefix \<open>priv_\<close>.
\<close>

record env =
  client :: client
  render_mode :: "string option"
  priv_connected :: bool
  priv_possible_agents :: "string list"
  priv_observation_spaces :: "string \<rightharpoonup> space"
  priv_action_spaces :: "string \<rightharpoonup> space"

text \<open>The loop of \<^verbatim>\<open>_connect_and_init\<close> over the possible agents.\<close>

fun cache_spaces :: "'s extern \<Rightarrow> env \<Rightarrow> string list \<Rightarrow> 's world \<Rightarrow> (error + unit) \<times> env \<times> 's world" where
  "cache_spaces N e [] w = (Inr (), e, w)"
| "cache_spaces N e (agent # rest) w =
     (case client_observation_space N (client e) agent w of
        (Inl err, w1) \<Rightarrow> (Inl err, e, w1)
      | (Inr obs_space_def, w1) \<Rightarrow>
          (case client_action_space N (client e) agent w1 of
             (Inl err, w2) \<Rightarrow> (Inl err, e, w2)
           | (Inr act_space_def, w2) \<Rightarrow>
               (case convert_space N obs_space_def of
                  Inl err \<Rightarrow> (Inl err, e, w2)
                | Inr os \<Rightarrow>
                    (let e1 = e\<lparr>priv_observation_spaces := (priv_observation_spaces e)(agent \<mapsto> os)\<rparr> in
                     case convert_space N act_space_def of
                       Inl err \<Rightarrow> (Inl err, e1, w2)
                     | Inr as \<Rightarrow>
                         cache_spaces N
                           (e1\<lparr>priv_action_spaces := (priv_action_spaces e1)(agent \<mapsto> as)\<rparr>)
                           rest w2))))"

definition connect_and_init :: "'s extern \<Rightarrow> env \<Rightarrow> 's world \<Rightarrow> (error + unit) \<times> env \<times> 's world" where
  "connect_and_init N e w =
     (if priv_connected e then (Inr (), e, w)
      else
        (case connect N (client e) w of
           (Inl err, c1, w1) \<Rightarrow> (Inl err, e\<lparr>client := c1\<rparr>, w1)
         | (Inr _, c1, w1) \<Rightarrow>
             (let e1 = e\<lparr>client := c1, priv_connected := True\<rparr> in
              case client_possible_agents N (client e1) w1 of
                (Inl err, w2) \<Rightarrow> (Inl err, e1, w2)
              | (Inr ags, w2) \<Rightarrow>
                  cache_spaces N (e1\<lparr>priv_possible_agents := ags\<rparr>) ags w2)))"

text \<open>\<^verbatim>\<open>__init__\<close>: when it raises there is no object.\<close>

definition blank_env :: "string \<Rightarrow> string option \<Rightarrow> env" where
  "blank_env u mode =
     \<lparr> client = init_client u, render_mode = mode, priv_connected = False,
       priv_possible_agents = [], priv_observation_spaces = Map.empty,
       priv_action_spaces = Map.empty \<rparr>"

definition init_env :: "'s extern \<Rightarrow> string \<Rightarrow> string option \<Rightarrow> bool \<Rightarrow> 's world \<Rightarrow> (error + env) \<times> 's world" where
  "init_env N u mode auto_connect w =
     (if auto_connect then
        (case connect_and_init N (blank_env u mode) w of
           (Inl err, e1, w1) \<Rightarrow> (Inl err, w1)
         | (Inr _, e1, w1) \<Rightarrow> (Inr e1, w1))
      else (Inr (blank_env u mode), w))"

definition possible_agents :: "env \<Rightarrow> string list" where
  "possible_agents e = priv_possible_agents e"

definition agents :: "'s extern \<Rightarrow> env \<Rightarrow> 's world \<Rightarrow> (error + string list) \<times> 's world" where
  "agents N e w = (if \<not> priv_connected e then (Inr [], w) else client_agents N (client e) w)"

definition num_agents :: "'s extern \<Rightarrow> env \<Rightarrow> 's world \<Rightarrow> (error + nat) \<times> 's world" where
  "num_agents N e w =
     (case agents N e w of (Inl err, w1) \<Rightarrow> (Inl err, w1) | (Inr ags, w1) \<Rightarrow> (Inr (length ags), w1))"

definition agent_selection :: "'s extern \<Rightarrow> env \<Rightarrow> 's world \<Rightarrow> (error + string) \<times> 's world" where
  "agent_selection N e w =
     (if \<not> priv_connected e then (Inr [], w) else client_agent_selection N (client e) w)"

definition observation_space :: "env \<Rightarrow> string \<Rightarrow> error + space" where
  "observation_space e agent =
     (case priv_observation_spaces e agent of None \<Rightarrow> Inl (KeyError agent) | Some s \<Rightarrow> Inr s)"

definition action_space :: "env \<Rightarrow> string \<Rightarrow> error + space" where
  "action_space e agent =
     (case priv_action_spaces e agent of None \<Rightarrow> Inl (KeyError agent) | Some s \<Rightarrow> Inr s)"

definition render :: "'s extern \<Rightarrow> env \<Rightarrow> 's world \<Rightarrow> (error + unit) \<times> 's world" where
  "render N e w = client_render N (client e) w"

definition reset :: "'s extern \<Rightarrow> env \<Rightarrow> int option \<Rightarrow> 's world \<Rightarrow> (error + unit) \<times> env \<times> 's world" where
  "reset N e seed w =
     (case (if \<not> priv_connected e then connect_and_init N e w else (Inr (), e, w)) of
        (Inl err, e1, w1) \<Rightarrow> (Inl err, e1, w1)
      | (Inr _, e1, w1) \<Rightarrow>
          (case client_reset N (client e1) seed w1 of
             (Inl err, w2) \<Rightarrow> (Inl err, e1, w2)
           | (Inr _, w2) \<Rightarrow>
               (if render_mode e1 = Some ''human''
                then (case render N e1 w2 of (r, w3) \<Rightarrow> (r, e1, w3))
                else (Inr (), e1, w2))))"

definition step :: "'s extern \<Rightarrow> env \<Rightarrow> int option \<Rightarrow> 's world \<Rightarrow> (error + unit) \<times> 's world" where
  "step N e action w =
     (case (case action of
              Some a \<Rightarrow> client_step N (client e) a w
            | None \<Rightarrow> (Inr (), w)) of
        (Inl err, w1) \<Rightarrow> (Inl err, w1)
      | (Inr _, w1) \<Rightarrow>
          (if render_mode e = Some ''human'' then render N e w1 else (Inr (), w1)))"

definition observe :: "'s extern \<Rightarrow> env \<Rightarrow> string \<Rightarrow> 's world \<Rightarrow> (error + num list) \<times> 's world" where
  "observe N e agent w = client_observe N (client e) agent w"

text \<open>
  The three conversions that \<^verbatim>\<open>last\<close> applies to the fields of the reply.
  \<^verbatim>\<open>float(x)\<close> takes a number, a boolean or a string and raises \<^verbatim>\<open>TypeError\<close> on
  \<^verbatim>\<open>None\<close>, a list or a dictionary; \<^verbatim>\<open>bool(x)\<close> is truthiness and never raises;
  \<^verbatim>\<open>dict(x)\<close> copies a dictionary, takes a list (or the empty string) as a sequence of
  key-value pairs, and raises on anything else. A dictionary so made may have keys that
  are not strings, so the keys of an info mapping are JSON values.
\<close>

definition py_float :: "'s extern \<Rightarrow> json \<Rightarrow> error + real" where
  "py_float N v =
     (case v of
        JNum x \<Rightarrow> float_of_number N x
      | JBool b \<Rightarrow> Inr (if b then 1 else 0)
      | JStr s \<Rightarrow> float_of_string N s
      | _ \<Rightarrow> Inl (TypeError ''float() argument must be a string or a real number''))"

definition py_bool :: "json \<Rightarrow> bool" where
  "py_bool v =
     (case v of
        JNull \<Rightarrow> False
      | JBool b \<Rightarrow> b
      | JNum x \<Rightarrow> x \<noteq> 0
      | JStr s \<Rightarrow> s \<noteq> []
      | JArr xs \<Rightarrow> xs \<noteq> []
      | JObj kvs \<Rightarrow> kvs \<noteq> [])"

definition py_dict :: "'s extern \<Rightarrow> json \<Rightarrow> error + (json \<times> json) list" where
  "py_dict N v =
     (case v of
        JObj kvs \<Rightarrow> Inr (map (\<lambda>(k, x). (JStr k, x)) kvs)
      | JArr xs \<Rightarrow> (if xs = [] then Inr [] else dict_of_items N xs)
      | JStr s \<Rightarrow>
          (if s = [] then Inr []
           else Inl (ValueError ''dictionary update sequence element #0 has length 1; 2 is required''))
      | _ \<Rightarrow> Inl (TypeError ''object is not iterable''))"

type_synonym step_result = "num list option \<times> real \<times> bool \<times> bool \<times> (json \<times> json) list"

text \<open>
  \<^verbatim>\<open>last\<close> (the name is taken by the list function). A field that is missing takes
  the default of \<^verbatim>\<open>result.get\<close>, which the conversion leaves as it is: \<^verbatim>\<open>0.0\<close>,
  \<^verbatim>\<open>False\<close>, \<^verbatim>\<open>{}\<close>.
\<close>

definition last_result :: "'s extern \<Rightarrow> env \<Rightarrow> bool \<Rightarrow> 's world \<Rightarrow> (error + step_result) \<times> 's world" where
  "last_result N e with_obs w =
     (case client_last N (client e) w of
        (Inl err, w1) \<Rightarrow> (Inl err, w1)
      | (Inr result, w1) \<Rightarrow>
          (case agent_selection N e w1 of
             (Inl err, w2) \<Rightarrow> (Inl err, w2)
           | (Inr agent, w2) \<Rightarrow>
               (case (if with_obs
                      then (case observe N e agent w2 of
                              (Inl err, w3) \<Rightarrow> (Inl err, w3)
                            | (Inr ob, w3) \<Rightarrow> (Inr (Some ob), w3))
                      else (Inr None, w2)) of
                  (Inl err, w3) \<Rightarrow> (Inl err, w3)
                | (Inr obs, w3) \<Rightarrow>
                    (case (case r_reward result of None \<Rightarrow> Inr 0 | Some v \<Rightarrow> py_float N v) of
                       Inl err \<Rightarrow> (Inl err, w3)
                     | Inr reward \<Rightarrow>
                         (let terminated = (case r_terminated result of
                                              None \<Rightarrow> False | Some v \<Rightarrow> py_bool v);
                              truncated = (case r_truncated result of
                                             None \<Rightarrow> False | Some v \<Rightarrow> py_bool v)
                          in case (case r_info result of None \<Rightarrow> Inr [] | Some v \<Rightarrow> py_dict N v) of
                               Inl err \<Rightarrow> (Inl err, w3)
                             | Inr info \<Rightarrow> (Inr (obs, reward, terminated, truncated, info), w3))))))"

definition rewards :: "'s extern \<Rightarrow> env \<Rightarrow> 's world \<Rightarrow> (error + (string \<times> real) list) \<times> 's world" where
  "rewards N e w = client_rewards N (client e) w"

definition terminations :: "'s extern \<Rightarrow> env \<Rightarrow> 's world \<Rightarrow> (error + (string \<times> bool) list) \<times> 's world" where
  "terminations N e w = client_terminations N (client e) w"

definition truncations :: "'s extern \<Rightarrow> env \<Rightarrow> 's world \<Rightarrow> (error + (string \<times> bool) list) \<times> 's world" where
  "truncations N e w = client_truncations N (client e) w"

definition infos ::
  "'s extern \<Rightarrow> env \<Rightarrow> 's world \<Rightarrow> (error + (string \<times> (string \<times> json) list) list) \<times> 's world" where
  "infos N e w = client_infos N (client e) w"

definition action_mask :: "'s extern \<Rightarrow> env \<Rightarrow> string \<Rightarrow> 's world \<Rightarrow> (error + bool list option) \<times> 's world" where
  "action_mask N e agent w = client_action_mask N (client e) agent w"

definition close :: "'s extern \<Rightarrow> env \<Rightarrow> 's world \<Rightarrow> (error + unit) \<times> env \<times> 's world" where
  "close N e w =
     (if priv_connected e
      then (case client_close N (client e) w of
              (Inl err, c1, w1) \<Rightarrow> (Inl err, e\<lparr>client := c1\<rparr>, w1)
            | (Inr _, c1, w1) \<Rightarrow> (Inr (), e\<lparr>client := c1, priv_connected := False\<rparr>, w1))
      else (Inr (), e, w))"

text \<open>\<^verbatim>\<open>__enter__\<close> and \<^verbatim>\<open>__exit__\<close>.\<close>

definition enter :: "'s extern \<Rightarrow> env \<Rightarrow> 's world \<Rightarrow> (error + unit) \<times> env \<times> 's world" where
  "enter N e w = (if \<not> priv_connected e then connect_and_init N e w else (Inr (), e, w))"

definition exit :: "'s extern \<Rightarrow> env \<Rightarrow> 's world \<Rightarrow> (error + unit) \<times> env \<times> 's world" where
  "exit N e w = close N e w"




section \<open>env.py: HyperTokenParallelEnv\<close>

text \<open>
  The parallel adapter holds an AEC adapter (\<^verbatim>\<open>_aec_env\<close>, always built with
  \<^verbatim>\<open>auto_connect=True\<close>) and calls nothing else; its methods are functions of that
  adapter.
\<close>

definition init_parallel :: "'s extern \<Rightarrow> string \<Rightarrow> string option \<Rightarrow> 's world \<Rightarrow> (error + env) \<times> 's world" where
  "init_parallel N u mode w = init_env N u mode True w"

text \<open>
  \<^verbatim>\<open>{agent: self._aec_env.observe(agent) for agent in xs}\<close>: one \<^verbatim>\<open>observe\<close> per
  element, in order, a later entry for the same key replacing the earlier one.
\<close>

fun observe_all ::
  "'s extern \<Rightarrow> env \<Rightarrow> string list \<Rightarrow> (string \<rightharpoonup> num list) \<Rightarrow> 's world
     \<Rightarrow> (error + (string \<rightharpoonup> num list)) \<times> 's world" where
  "observe_all N e [] acc w = (Inr acc, w)"
| "observe_all N e (agent # rest) acc w =
     (case observe N e agent w of
        (Inl err, w1) \<Rightarrow> (Inl err, w1)
      | (Inr ob, w1) \<Rightarrow> observe_all N e rest (acc(agent \<mapsto> ob)) w1)"

definition parallel_reset ::
  "'s extern \<Rightarrow> env \<Rightarrow> int option \<Rightarrow> 's world
     \<Rightarrow> (error + (string \<rightharpoonup> num list) \<times> (string \<times> (string \<times> json) list) list) \<times> env \<times> 's world" where
  "parallel_reset N e seed w =
     (case reset N e seed w of
        (Inl err, e1, w1) \<Rightarrow> (Inl err, e1, w1)
      | (Inr _, e1, w1) \<Rightarrow>
          (case agents N e1 w1 of
             (Inl err, w2) \<Rightarrow> (Inl err, e1, w2)
           | (Inr ags, w2) \<Rightarrow>
               (case observe_all N e1 ags Map.empty w2 of
                  (Inl err, w3) \<Rightarrow> (Inl err, e1, w3)
                | (Inr observations, w3) \<Rightarrow>
                    (case infos N e1 w3 of
                       (Inl err, w4) \<Rightarrow> (Inl err, e1, w4)
                     | (Inr is, w4) \<Rightarrow> (Inr (observations, is), e1, w4)))))"

text \<open>
  The first loop of the parallel \<^verbatim>\<open>step\<close>, over the copy \<^verbatim>\<open>list(self.agents)\<close> taken
  when the call starts. An agent without an entry in \<open>actions\<close> is passed over without a
  query; one with an entry is stepped only if the server names it as the selected agent
  at that moment.
\<close>

fun step_round :: "'s extern \<Rightarrow> env \<Rightarrow> (string \<rightharpoonup> int) \<Rightarrow> string list \<Rightarrow> 's world \<Rightarrow> (error + unit) \<times> 's world" where
  "step_round N e actions [] w = (Inr (), w)"
| "step_round N e actions (agent # rest) w =
     (case actions agent of
        None \<Rightarrow> step_round N e actions rest w
      | Some action \<Rightarrow>
          (case agent_selection N e w of
             (Inl err, w1) \<Rightarrow> (Inl err, w1)
           | (Inr current, w1) \<Rightarrow>
               (if current = agent
                then (case step N e (Some action) w1 of
                        (Inl err, w2) \<Rightarrow> (Inl err, w2)
                      | (Inr _, w2) \<Rightarrow> step_round N e actions rest w2)
                else step_round N e actions rest w1)))"

record step_maps =
  observations :: "string \<rightharpoonup> num list"
  rewards_map :: "(string \<times> real) list"
  terminations_map :: "(string \<times> bool) list"
  truncations_map :: "(string \<times> bool) list"
  infos_map :: "(string \<times> (string \<times> json) list) list"

definition parallel_step :: "'s extern \<Rightarrow> env \<Rightarrow> (string \<rightharpoonup> int) \<Rightarrow> 's world \<Rightarrow> (error + step_maps) \<times> 's world" where
  "parallel_step N e actions w =
     (case agents N e w of
        (Inl err, w0) \<Rightarrow> (Inl err, w0)
      | (Inr ags, w0) \<Rightarrow>
     (case step_round N e actions ags w0 of
        (Inl err, w1) \<Rightarrow> (Inl err, w1)
      | (Inr _, w1) \<Rightarrow>
     (case agents N e w1 of
        (Inl err, w2) \<Rightarrow> (Inl err, w2)
      | (Inr current_agents, w2) \<Rightarrow>
     (case observe_all N e current_agents Map.empty w2 of
        (Inl err, w3) \<Rightarrow> (Inl err, w3)
      | (Inr obs, w3) \<Rightarrow>
     (case rewards N e w3 of
        (Inl err, w4) \<Rightarrow> (Inl err, w4)
      | (Inr rs, w4) \<Rightarrow>
     (case terminations N e w4 of
        (Inl err, w5) \<Rightarrow> (Inl err, w5)
      | (Inr ts, w5) \<Rightarrow>
     (case truncations N e w5 of
        (Inl err, w6) \<Rightarrow> (Inl err, w6)
      | (Inr us, w6) \<Rightarrow>
     (case infos N e w6 of
        (Inl err, w7) \<Rightarrow> (Inl err, w7)
      | (Inr is, w7) \<Rightarrow>
          (Inr \<lparr> observations = obs, rewards_map = rs, terminations_map = ts,
                 truncations_map = us, infos_map = is \<rparr>, w7)))))))))"

definition parallel_state :: "'s extern \<Rightarrow> env \<Rightarrow> 's world \<Rightarrow> (error + (string \<rightharpoonup> num list)) \<times> 's world" where
  "parallel_state N e w =
     (case agents N e w of
        (Inl err, w1) \<Rightarrow> (Inl err, w1)
      | (Inr ags, w1) \<Rightarrow> observe_all N e ags Map.empty w1)"

section \<open>Calls on the adapter, one after another\<close>

text \<open>
  Every public method and property of the two adapter classes, as a value, so that a
  statement can speak of any call and of any sequence of calls. \<^verbatim>\<open>agent_iter\<close> is not
  listed: all that the generator itself does is read \<^verbatim>\<open>agents\<close> and
  \<^verbatim>\<open>agent_selection\<close>, which are.
\<close>

datatype call =
    CallReset "int option"
  | CallStep "int option"
  | CallObserve string
  | CallLast bool
  | CallRewards
  | CallTerminations
  | CallTruncations
  | CallInfos
  | CallActionMask string
  | CallRender
  | CallClose
  | CallEnter
  | CallExit
  | CallAgents
  | CallNumAgents
  | CallAgentSelection
  | CallPossibleAgents
  | CallObservationSpace string
  | CallActionSpace string
  | CallParallelReset "int option"
  | CallParallelStep "string \<rightharpoonup> int"
  | CallParallelState

text \<open>What a call leaves behind: the exception if it raised, the adapter, the world.\<close>

definition raised :: "error + 'a \<Rightarrow> error option" where
  "raised r = (case r of Inl err \<Rightarrow> Some err | Inr _ \<Rightarrow> None)"

definition keep :: "env \<Rightarrow> (error + 'a) \<times> 's world \<Rightarrow> error option \<times> env \<times> 's world" where
  "keep e rw = (raised (fst rw), e, snd rw)"

definition change :: "(error + 'a) \<times> env \<times> 's world \<Rightarrow> error option \<times> env \<times> 's world" where
  "change rew = (raised (fst rew), snd rew)"

fun exec :: "'s extern \<Rightarrow> call \<Rightarrow> env \<Rightarrow> 's world \<Rightarrow> error option \<times> env \<times> 's world" where
  "exec N (CallReset seed) e w = change (reset N e seed w)"
| "exec N (CallStep action) e w = keep e (step N e action w)"
| "exec N (CallObserve agent) e w = keep e (observe N e agent w)"
| "exec N (CallLast with_obs) e w = keep e (last_result N e with_obs w)"
| "exec N CallRewards e w = keep e (rewards N e w)"
| "exec N CallTerminations e w = keep e (terminations N e w)"
| "exec N CallTruncations e w = keep e (truncations N e w)"
| "exec N CallInfos e w = keep e (infos N e w)"
| "exec N (CallActionMask agent) e w = keep e (action_mask N e agent w)"
| "exec N CallRender e w = keep e (render N e w)"
| "exec N CallClose e w = change (close N e w)"
| "exec N CallEnter e w = change (enter N e w)"
| "exec N CallExit e w = change (exit N e w)"
| "exec N CallAgents e w = keep e (agents N e w)"
| "exec N CallNumAgents e w = keep e (num_agents N e w)"
| "exec N CallAgentSelection e w = keep e (agent_selection N e w)"
| "exec N CallPossibleAgents e w = (None, e, w)"
| "exec N (CallObservationSpace agent) e w = (raised (observation_space e agent), e, w)"
| "exec N (CallActionSpace agent) e w = (raised (action_space e agent), e, w)"
| "exec N (CallParallelReset seed) e w = change (parallel_reset N e seed w)"
| "exec N (CallParallelStep actions) e w = keep e (parallel_step N e actions w)"
| "exec N CallParallelState e w = keep e (parallel_state N e w)"

text \<open>
  A caller that goes on after an exception (it may catch it): the calls of a list, in
  order.
\<close>

fun exec_all :: "'s extern \<Rightarrow> call list \<Rightarrow> env \<Rightarrow> 's world \<Rightarrow> env \<times> 's world" where
  "exec_all N [] e w = (e, w)"
| "exec_all N (c # cs) e w = (case exec N c e w of (_, e1, w1) \<Rightarrow> exec_all N cs e1 w1)"

text \<open>
  The adapter never has an open socket while its \<^verbatim>\<open>_connected\<close> flag is down: the
  constructor starts that way and every method keeps it so.
\<close>

definition flag_covers_socket :: "env \<Rightarrow> bool" where
  "flag_covers_socket e = (priv_connected e \<or> ws (client e) = None)"

section \<open>Servers to run the adapter against\<close>

text \<open>
  A server that plays back a fixed list of replies, whatever it is asked, and drops the
  connection when the list is used up; its \<open>float32\<close> rounds nothing.
\<close>

definition scripted :: "recv list extern" where
  "scripted =
     \<lparr> accept = (\<lambda>s. Some s),
       respond = (\<lambda>m s. case s of [] \<Rightarrow> (Dropped, []) | r # rs \<Rightarrow> (r, rs)),
       hangup = (\<lambda>s. s),
       float32 = Fin,
       float_of_number = Inr,
       float_of_string = (\<lambda>s. Inl (ValueError ''could not convert string to float'')),
       dict_of_items = (\<lambda>xs. Inl (TypeError ''cannot convert dictionary update sequence'')) \<rparr>"

text \<open>
  A small turn-based game server: the list of active agents, the order in which the
  coming turns are given out (a step uses up one turn), and whether the selected agent
  is reported as terminated.
\<close>

record table =
  active :: "string list"
  turns :: "string list"
  finished :: bool

definition table_reply :: "cmd \<Rightarrow> table \<Rightarrow> reply" where
  "table_reply m t =
     (case m of
        Agents \<Rightarrow> ack\<lparr>r_agents := Some (active t)\<rparr>
      | PossibleAgents \<Rightarrow> ack\<lparr>r_possible_agents := Some (active t)\<rparr>
      | AgentSelection \<Rightarrow> ack\<lparr>r_agent := Some (case turns t of [] \<Rightarrow> [] | a # _ \<Rightarrow> a)\<rparr>
      | Observe _ \<Rightarrow> ack\<lparr>r_observation := Some [0]\<rparr>
      | Last \<Rightarrow> ack\<lparr>r_reward := Some (JNum 0), r_terminated := Some (JBool (finished t)),
                     r_truncated := Some (JBool False), r_info := Some (JObj [])\<rparr>
      | ObservationSpace _ \<Rightarrow>
          ack\<lparr>r_space := Some \<lparr>sd_n = None, sd_shape = Some [1], sd_low = Some [Fin 0],
                                sd_high = Some [Fin 1]\<rparr>\<rparr>
      | ActionSpace _ \<Rightarrow>
          ack\<lparr>r_space := Some \<lparr>sd_n = Some 2, sd_shape = None, sd_low = None, sd_high = None\<rparr>\<rparr>
      | Rewards \<Rightarrow> ack\<lparr>r_rewards := Some (map (\<lambda>a. (a, 0)) (active t))\<rparr>
      | Terminations \<Rightarrow> ack\<lparr>r_terminations := Some (map (\<lambda>a. (a, finished t)) (active t))\<rparr>
      | Truncations \<Rightarrow> ack\<lparr>r_truncations := Some (map (\<lambda>a. (a, False)) (active t))\<rparr>
      | Infos \<Rightarrow> ack\<lparr>r_infos := Some (map (\<lambda>a. (a, [])) (active t))\<rparr>
      | ActionMask _ \<Rightarrow> ack\<lparr>r_mask := Some [True, True]\<rparr>
      | _ \<Rightarrow> ack)"

definition table_server :: "table extern" where
  "table_server =
     \<lparr> accept = (\<lambda>t. Some t),
       respond = (\<lambda>m t. (Reply (table_reply m t),
                          case m of Step _ \<Rightarrow> t\<lparr>turns := tl (turns t)\<rparr> | _ \<Rightarrow> t)),
       hangup = (\<lambda>t. t),
       float32 = Fin,
       float_of_number = Inr,
       float_of_string = (\<lambda>s. Inl (ValueError ''could not convert string to float'')),
       dict_of_items = (\<lambda>xs. Inl (TypeError ''cannot convert dictionary update sequence'')) \<rparr>"

text \<open>An adapter that is connected, and a world in which nothing has been sent yet.\<close>

definition live_env :: env where
  "live_env =
     \<lparr> client = \<lparr> url = ''ws://localhost:9999'', ws = Some Sock \<rparr>, render_mode = None,
       priv_connected = True, priv_possible_agents = [''a'', ''b''],
       priv_observation_spaces =
         [''a'' \<mapsto> Box [1] [Fin 0] [Fin 1], ''b'' \<mapsto> Box [1] [Fin 0] [Fin 1]],
       priv_action_spaces = [''a'' \<mapsto> Discrete 2, ''b'' \<mapsto> Discrete 2] \<rparr>"

definition fresh :: "'s \<Rightarrow> 's world" where
  "fresh s = \<lparr> server = s, wire = [] \<rparr>"

section \<open>Notions the statements use\<close>

text \<open>A descriptor turned into a space object and back.\<close>

definition round_trip :: "'s extern \<Rightarrow> space_def \<Rightarrow> error + space_def" where
  "round_trip N d = (case convert_space N d of Inl err \<Rightarrow> Inl err | Inr s \<Rightarrow> space_to_dict s)"

text \<open>The actions of the \<^verbatim>\<open>step\<close> commands among some events, in the order sent.\<close>

fun step_actions :: "event list \<Rightarrow> int list" where
  "step_actions [] = []"
| "step_actions (Send (Step a) # evs) = a # step_actions evs"
| "step_actions (_ # evs) = step_actions evs"

text \<open>The only traffic of a \<^verbatim>\<open>reset\<close> on a connected adapter: the reset and a render.\<close>

fun reset_traffic :: "event \<Rightarrow> bool" where
  "reset_traffic (Send (Reset _)) = True"
| "reset_traffic (Send Render) = True"
| "reset_traffic _ = False"

text \<open>Events in which nothing is sent before a connection is opened.\<close>

fun connect_first :: "event list \<Rightarrow> bool" where
  "connect_first [] = True"
| "connect_first (Connect # _) = True"
| "connect_first (Send _ # _) = False"
| "connect_first (Hangup # evs) = connect_first evs"

text \<open>The wire after a call holds the wire before it, and what the call added.\<close>

definition grows :: "'s world \<Rightarrow> 's world \<Rightarrow> bool" where
  "grows w w' = prefix (wire w) (wire w')"

text \<open>An adapter that is closed: flag down, no socket.\<close>

definition closed :: "env \<Rightarrow> bool" where
  "closed e = (\<not> priv_connected e \<and> ws (client e) = None)"

text \<open>A two-player game about to start, and the connected adapter after \<^verbatim>\<open>close\<close>.\<close>

definition game :: table where
  "game = \<lparr> active = [''a'', ''b''], turns = [''a'', ''b''], finished = False \<rparr>"

definition shut_env :: env where
  "shut_env = live_env\<lparr>client := (client live_env)\<lparr>ws := None\<rparr>, priv_connected := False\<rparr>"

text \<open>The same game with the turns the other way round: \<open>b\<close> moves first.\<close>

definition late :: table where
  "late = \<lparr> active = [''a'', ''b''], turns = [''b'', ''a''], finished = False \<rparr>"



text \<open>What the constructor puts on the wire against the two-player game.\<close>

definition handshake :: "event list" where
  "handshake = [Connect, Send PossibleAgents, Send (ObservationSpace ''a''),
                Send (ActionSpace ''a''), Send (ObservationSpace ''b''),
                Send (ActionSpace ''b'')]"



section \<open>What a single message does\<close>

lemma send_disconnected: "ws c = None \<Longrightarrow> send N c m w = (Inl not_connected, w)"
  by (simp add: send_def)

lemma send_get_disconnected: "ws c = None \<Longrightarrow> send_get N c m k sel w = (Inl not_connected, w)"
  by (simp add: send_get_def send_disconnected)

lemma send_unit_disconnected: "ws c = None \<Longrightarrow> send_unit N c m w = (Inl not_connected, w)"
  by (simp add: send_unit_def send_disconnected)

lemma disconnect_disconnected: "ws c = None \<Longrightarrow> disconnect N c w = (c, w)"
  by (simp add: disconnect_def)

section \<open>Stepping with no action\<close>

text \<open>
  C6. A call of the AEC adapter's \<^verbatim>\<open>step\<close> with \<^verbatim>\<open>action = None\<close>, the render mode
  not being \<^verbatim>\<open>"human"\<close>, returns normally and leaves the world as it was: nothing is
  put on the wire and the server's state is the same.
\<close>

theorem step_none_sends_nothing:
  "render_mode e \<noteq> Some ''human'' \<Longrightarrow> step N e None w = (Inr (), w)"
  by (simp add: step_def)

theorem step_none_sends_nothing_witness:
  "render_mode live_env \<noteq> Some ''human'' \<and>
   step scripted live_env None (fresh [Reply ack]) = (Inr (), fresh [Reply ack])"
proof -
  have h: "render_mode live_env \<noteq> Some ''human''" by (simp add: live_env_def)
  show ?thesis using h step_none_sends_nothing [OF h] by simp
qed

section \<open>Calls on a disconnected client\<close>

text \<open>
  C7, as the claim has it, fails at \<^verbatim>\<open>close\<close>: on a client that was never connected
  \<^verbatim>\<open>close\<close> returns normally instead of failing with the not-connected error.
\<close>

theorem close_disconnected_returns:
  "ws (init_client ''ws://localhost:9999'') = None \<and>
   client_close scripted (init_client ''ws://localhost:9999'') (fresh [Reply ack])
     = (Inr (), init_client ''ws://localhost:9999'', fresh [Reply ack])"
  by (simp add: client_close_def send_def disconnect_def init_client_def)

text \<open>
  C7, amended. On a disconnected client every method that sends a command, \<^verbatim>\<open>close\<close>
  apart, fails with the not-connected error and leaves the world as it was; \<^verbatim>\<open>close\<close>
  catches that error, returns normally, and leaves the client and the world as they were.
\<close>

theorem disconnected_methods_fail:
  assumes "ws c = None"
  shows "client_reset N c seed w = (Inl not_connected, w)
       \<and> client_step N c action w = (Inl not_connected, w)
       \<and> client_observe N c agent w = (Inl not_connected, w)
       \<and> client_last N c w = (Inl not_connected, w)
       \<and> client_agents N c w = (Inl not_connected, w)
       \<and> client_possible_agents N c w = (Inl not_connected, w)
       \<and> client_agent_selection N c w = (Inl not_connected, w)
       \<and> client_observation_space N c agent w = (Inl not_connected, w)
       \<and> client_action_space N c agent w = (Inl not_connected, w)
       \<and> client_rewards N c w = (Inl not_connected, w)
       \<and> client_terminations N c w = (Inl not_connected, w)
       \<and> client_truncations N c w = (Inl not_connected, w)
       \<and> client_infos N c w = (Inl not_connected, w)
       \<and> client_action_mask N c agent w = (Inl not_connected, w)
       \<and> client_render N c w = (Inl not_connected, w)
       \<and> client_ping N c w = (Inl not_connected, w)
       \<and> client_env_info N c w = (Inl not_connected, w)
       \<and> client_close N c w = (Inr (), c, w)"
  using assms
  by (simp add: client_reset_def client_step_def client_observe_def client_last_def
      client_agents_def client_possible_agents_def client_agent_selection_def
      client_observation_space_def client_action_space_def client_rewards_def
      client_terminations_def client_truncations_def client_infos_def client_action_mask_def
      client_render_def client_ping_def client_env_info_def client_close_def
      send_disconnected send_get_disconnected send_unit_disconnected disconnect_disconnected)

theorem disconnected_methods_fail_witness:
  "ws (init_client ''ws://localhost:9999'') = None \<and>
   client_step scripted (init_client ''ws://localhost:9999'') 1 (fresh [Reply ack])
     = (Inl (RuntimeError ''Not connected. Call connect() first.''), fresh [Reply ack]) \<and>
   client_agents scripted (init_client ''ws://localhost:9999'') (fresh [Reply ack])
     = (Inl (RuntimeError ''Not connected. Call connect() first.''), fresh [Reply ack])"
proof -
  have h: "ws (init_client ''ws://localhost:9999'') = None" by (simp add: init_client_def)
  show ?thesis
    using h disconnected_methods_fail [OF h, of scripted None "fresh [Reply ack]" 1 "''a''"]
    by (simp add: not_connected_def)
qed

section \<open>The wire only grows\<close>

lemma grows_refl [simp]: "grows w w"
  by (simp add: grows_def)

lemma grows_trans: "grows w w1 \<Longrightarrow> grows w1 w2 \<Longrightarrow> grows w w2"
  unfolding grows_def by (rule prefix_order.trans)

lemma send_grows: "send N c m w = (r, w') \<Longrightarrow> grows w w'"
  by (auto simp add: send_def grows_def Let_def split: option.splits prod.splits recv.splits)

lemma send_get_grows: "send_get N c m k sel w = (r, w') \<Longrightarrow> grows w w'"
  by (auto simp add: send_get_def split: prod.splits sum.splits option.splits dest: send_grows)

lemma send_unit_grows: "send_unit N c m w = (r, w') \<Longrightarrow> grows w w'"
  by (auto simp add: send_unit_def split: prod.splits sum.splits dest: send_grows)

lemma disconnect_grows: "disconnect N c w = (c', w') \<Longrightarrow> grows w w'"
  by (auto simp add: disconnect_def grows_def split: option.splits)

lemma connect_grows: "connect N c w = (r, c', w') \<Longrightarrow> grows w w'"
  by (auto simp add: connect_def disconnect_def grows_def split: option.splits prod.splits if_splits)

lemma client_close_grows: "client_close N c w = (r, c', w') \<Longrightarrow> grows w w'"
  by (auto simp add: client_close_def split: prod.splits dest!: send_grows disconnect_grows intro: grows_trans)

lemmas client_defs = client_reset_def client_step_def client_observe_def client_last_def
      client_agents_def client_possible_agents_def client_agent_selection_def
      client_observation_space_def client_action_space_def client_rewards_def
      client_terminations_def client_truncations_def client_infos_def
      client_render_def client_ping_def client_env_info_def

lemma client_action_mask_grows: "client_action_mask N c a w = (r, w') \<Longrightarrow> grows w w'"
  by (auto simp add: client_action_mask_def split: prod.splits sum.splits option.splits if_splits dest: send_grows)

lemma cache_spaces_grows: "cache_spaces N e ags w = (r, e', w') \<Longrightarrow> grows w w'"
proof (induction ags arbitrary: e w)
  case Nil
  then show ?case by simp
next
  case (Cons a ags)
  then show ?case
    by (auto simp add: client_defs Let_def split: prod.splits sum.splits
             dest!: send_get_grows intro: grows_trans)
qed

lemma connect_and_init_grows: "connect_and_init N e w = (r, e', w') \<Longrightarrow> grows w w'"
  by (auto simp add: connect_and_init_def client_defs Let_def split: prod.splits sum.splits if_splits
           dest!: send_get_grows connect_grows cache_spaces_grows intro: grows_trans)

lemma render_grows: "render N e w = (r, w') \<Longrightarrow> grows w w'"
  by (auto simp add: render_def client_defs dest: send_unit_grows)

lemma reset_grows: "reset N e seed w = (r, e', w') \<Longrightarrow> grows w w'"
  by (auto simp add: reset_def client_defs split: prod.splits sum.splits if_splits
           dest!: send_unit_grows connect_and_init_grows render_grows intro: grows_trans)

lemma step_grows: "step N e a w = (r, w') \<Longrightarrow> grows w w'"
  by (auto simp add: step_def client_defs split: prod.splits sum.splits if_splits option.splits
           dest!: send_unit_grows render_grows intro: grows_trans)

lemma agents_grows: "agents N e w = (r, w') \<Longrightarrow> grows w w'"
  by (auto simp add: agents_def client_defs split: if_splits dest: send_get_grows)

lemma agent_selection_grows: "agent_selection N e w = (r, w') \<Longrightarrow> grows w w'"
  by (auto simp add: agent_selection_def client_defs split: if_splits dest: send_get_grows)

lemma observe_grows: "observe N e a w = (r, w') \<Longrightarrow> grows w w'"
  by (auto simp add: observe_def client_defs split: prod.splits sum.splits dest: send_get_grows)

lemma last_result_grows: "last_result N e b w = (r, w') \<Longrightarrow> grows w w'"
  by (auto simp add: last_result_def client_defs split: prod.splits sum.splits if_splits
           dest!: send_grows agent_selection_grows observe_grows intro: grows_trans)

lemma observe_all_grows: "observe_all N e ags acc w = (r, w') \<Longrightarrow> grows w w'"
proof (induction ags arbitrary: acc w)
  case Nil
  then show ?case by simp
next
  case (Cons a ags)
  then show ?case
    by (auto split: prod.splits sum.splits dest!: observe_grows intro: grows_trans)
qed

lemma step_round_grows: "step_round N e actions ags w = (r, w') \<Longrightarrow> grows w w'"
proof (induction ags arbitrary: w)
  case Nil
  then show ?case by simp
next
  case (Cons a ags)
  then show ?case
    by (auto split: prod.splits sum.splits option.splits if_splits
             dest!: agent_selection_grows step_grows intro: grows_trans)
qed

lemma queries_grow:
  "rewards N e w = (r1, w') \<Longrightarrow> grows w w'"
  "terminations N e w = (r2, w') \<Longrightarrow> grows w w'"
  "truncations N e w = (r3, w') \<Longrightarrow> grows w w'"
  "infos N e w = (r4, w') \<Longrightarrow> grows w w'"
  "action_mask N e a w = (r5, w') \<Longrightarrow> grows w w'"
  "num_agents N e w = (r6, w') \<Longrightarrow> grows w w'"
  by (auto simp add: rewards_def terminations_def truncations_def infos_def action_mask_def
        num_agents_def client_defs split: prod.splits sum.splits
        dest: send_get_grows client_action_mask_grows agents_grows)

lemma parallel_step_grows: "parallel_step N e actions w = (r, w') \<Longrightarrow> grows w w'"
  unfolding parallel_step_def
  by (auto split: prod.splits sum.splits
           dest!: agents_grows step_round_grows observe_all_grows queries_grow)
     (blast intro: grows_trans)+


lemma close_grows: "close N e w = (r, e', w') \<Longrightarrow> grows w w'"
  by (auto simp add: close_def split: prod.splits sum.splits if_splits dest: client_close_grows)

lemma enter_grows: "enter N e w = (r, e', w') \<Longrightarrow> grows w w'"
  by (auto simp add: enter_def split: if_splits dest: connect_and_init_grows)

lemma parallel_reset_grows: "parallel_reset N e seed w = (r, e', w') \<Longrightarrow> grows w w'"
  unfolding parallel_reset_def
  by (auto split: prod.splits sum.splits
           dest!: reset_grows agents_grows observe_all_grows queries_grow)
     (blast intro: grows_trans)+

lemma parallel_state_grows: "parallel_state N e w = (r, w') \<Longrightarrow> grows w w'"
  unfolding parallel_state_def
  by (auto split: prod.splits sum.splits dest!: agents_grows observe_all_grows intro: grows_trans)

lemma keep_grows:
  "keep e rw = (r0, e1, w1) \<Longrightarrow> (\<And>r w'. rw = (r, w') \<Longrightarrow> grows w w') \<Longrightarrow> grows w w1"
  by (cases rw) (auto simp add: keep_def)

lemma change_grows:
  "change rew = (r0, e1, w1) \<Longrightarrow> (\<And>r e' w'. rew = (r, e', w') \<Longrightarrow> grows w w') \<Longrightarrow> grows w w1"
  by (cases rew) (auto simp add: change_def)

lemma exec_grows: "exec N c e w = (r, e', w') \<Longrightarrow> grows w w'"
proof (cases c)
  case (CallReset seed)
  then show "exec N c e w = (r, e', w') \<Longrightarrow> grows w w'"
    by (auto elim!: change_grows dest: reset_grows)
next
  case (CallParallelReset seed)
  then show "exec N c e w = (r, e', w') \<Longrightarrow> grows w w'"
    by (auto elim!: change_grows dest: parallel_reset_grows)
next
  case (CallParallelStep actions)
  then show "exec N c e w = (r, e', w') \<Longrightarrow> grows w w'"
    by (auto elim!: keep_grows dest: parallel_step_grows)
qed (auto simp add: exit_def elim!: keep_grows change_grows
       dest: step_grows observe_grows last_result_grows queries_grow render_grows
             close_grows enter_grows agents_grows agent_selection_grows parallel_state_grows)

lemma exec_all_grows: "exec_all N cs e w = (e', w') \<Longrightarrow> grows w w'"
proof (induction cs arbitrary: e w)
  case Nil
  then show ?case by simp
next
  case (Cons c cs)
  then show ?case
    by (auto split: prod.splits dest!: exec_grows intro: grows_trans)
qed

section \<open>A closed adapter\<close>

lemma grows_from_connect:
  "wire w1 = wire w @ [Connect] \<Longrightarrow> grows w1 w' \<Longrightarrow> \<exists>evs. wire w' = wire w @ Connect # evs"
  by (auto simp add: grows_def prefix_def)

lemma connect_and_init_closed:
  assumes "closed e" and "connect_and_init N e w = (r, e', w')"
  shows "(r = Inl ConnectionError \<and> e' = e \<and> w' = w) \<or> (\<exists>evs. wire w' = wire w @ Connect # evs)"
proof (cases "accept N (server w)")
  case None
  with assms show ?thesis
    by (auto simp add: closed_def connect_and_init_def connect_def)
next
  case (Some s)
  define c1 where "c1 = (client e)\<lparr>ws := Some Sock\<rparr>"
  define w1 where "w1 = w\<lparr>server := s, wire := wire w @ [Connect]\<rparr>"
  have conn: "connect N (client e) w = (Inr (), c1, w1)"
    using assms(1) Some by (simp add: closed_def connect_def c1_def w1_def)
  have "grows w1 w'"
    using assms conn
    by (auto simp add: closed_def connect_and_init_def Let_def client_possible_agents_def
          split: prod.splits sum.splits
          dest!: send_get_grows cache_spaces_grows intro: grows_trans)
  moreover have "wire w1 = wire w @ [Connect]" by (simp add: w1_def)
  ultimately show ?thesis using grows_from_connect by blast
qed

lemma observe_all_nil_closed: "observe_all N e [] acc w = (Inr acc, w)"
  by simp

lemma keep_closed:
  assumes "closed e"
  shows "step N e a w = (r1, w1) \<Longrightarrow> w1 = w"
    and "observe N e ag w = (r2, w2) \<Longrightarrow> w2 = w"
    and "last_result N e b w = (r3, w3) \<Longrightarrow> w3 = w"
    and "rewards N e w = (r4, w4) \<Longrightarrow> w4 = w"
    and "terminations N e w = (r5, w5) \<Longrightarrow> w5 = w"
    and "truncations N e w = (r6, w6) \<Longrightarrow> w6 = w"
    and "infos N e w = (r7, w7) \<Longrightarrow> w7 = w"
    and "action_mask N e ag w = (r8, w8) \<Longrightarrow> w8 = w"
    and "render N e w = (r9, w9) \<Longrightarrow> w9 = w"
    and "agents N e w = (r10, w10) \<Longrightarrow> w10 = w"
    and "num_agents N e w = (r11, w11) \<Longrightarrow> w11 = w"
    and "agent_selection N e w = (r12, w12) \<Longrightarrow> w12 = w"
    and "parallel_step N e acts w = (r13, w13) \<Longrightarrow> w13 = w"
    and "parallel_state N e w = (r14, w14) \<Longrightarrow> w14 = w"
  using assms
  by (auto simp add: closed_def step_def observe_def last_result_def rewards_def terminations_def
        truncations_def infos_def action_mask_def render_def agents_def num_agents_def
        agent_selection_def parallel_step_def parallel_state_def client_defs
        client_action_mask_def send_disconnected send_get_disconnected send_unit_disconnected
        split: option.splits if_splits)


lemmas keep_closed_snd = keep_closed [OF _ surjective_pairing]

lemma grows_after_connect:
  "wire w1 = wire w @ Connect # evs \<Longrightarrow> grows w1 w' \<Longrightarrow> \<exists>evs'. wire w' = wire w @ Connect # evs'"
  by (auto simp add: grows_def prefix_def)

lemma reset_after_init:
  assumes "\<not> priv_connected e" and "reset N e seed w = (r, e', w')"
  shows "\<exists>r0 e1 w1. connect_and_init N e w = (r0, e1, w1) \<and> grows w1 w'
           \<and> ((\<exists>err. r0 = Inl err) \<longrightarrow> e' = e1 \<and> w' = w1)"
  using assms
  by (auto simp add: reset_def client_reset_def split: prod.splits sum.splits if_splits
        dest!: send_unit_grows render_grows intro: grows_trans)

lemma reset_closed:
  assumes "closed e" and "reset N e seed w = (r, e', w')"
  shows "(e' = e \<and> w' = w) \<or> (\<exists>evs. wire w' = wire w @ Connect # evs)"
proof -
  from assms obtain r0 e1 w1 where
    init: "connect_and_init N e w = (r0, e1, w1)" and g: "grows w1 w'"
    and fail: "(\<exists>err. r0 = Inl err) \<longrightarrow> e' = e1 \<and> w' = w1"
    using reset_after_init [of e N seed w r e' w'] by (auto simp add: closed_def)
  from connect_and_init_closed [OF assms(1) init] show ?thesis
    using g fail grows_after_connect by blast
qed

lemma enter_closed:
  assumes "closed e" and "enter N e w = (r, e', w')"
  shows "(e' = e \<and> w' = w) \<or> (\<exists>evs. wire w' = wire w @ Connect # evs)"
  using assms connect_and_init_closed [of e N w r e' w']
  by (auto simp add: enter_def closed_def)

lemma close_closed: "closed e \<Longrightarrow> close N e w = (Inr (), e, w)"
  by (simp add: close_def closed_def)

lemma parallel_reset_after_reset:
  assumes "parallel_reset N e seed w = (r, e', w')"
  shows "\<exists>r0 w1. reset N e seed w = (r0, e', w1) \<and> grows w1 w'
           \<and> ((\<exists>err. r0 = Inl err) \<longrightarrow> w' = w1)"
  using assms unfolding parallel_reset_def
  by (auto split: prod.splits sum.splits
        dest!: agents_grows observe_all_grows queries_grow)
     (blast intro: grows_trans)+

lemma parallel_reset_closed:
  assumes "closed e" and "parallel_reset N e seed w = (r, e', w')"
  shows "(e' = e \<and> w' = w) \<or> (\<exists>evs. wire w' = wire w @ Connect # evs)"
proof -
  from assms(2) obtain r0 w1 where
    rs: "reset N e seed w = (r0, e', w1)" and g: "grows w1 w'"
    and fail: "(\<exists>err. r0 = Inl err) \<longrightarrow> w' = w1"
    using parallel_reset_after_reset by blast
  from reset_closed [OF assms(1) rs] show ?thesis
  proof
    assume same: "e' = e \<and> w1 = w"
    show ?thesis
    proof (cases r0)
      case (Inl err)
      with fail same show ?thesis by simp
    next
      case (Inr u)
      with rs same assms show ?thesis
        by (auto simp add: closed_def parallel_reset_def agents_def infos_def client_infos_def
              send_get_disconnected)
    qed
  next
    assume "\<exists>evs. wire w1 = wire w @ Connect # evs"
    with g grows_after_connect show ?thesis by blast
  qed
qed

lemma exec_closed:
  assumes "closed e" and "exec N c e w = (r, e', w')"
  shows "(e' = e \<and> w' = w) \<or> (\<exists>evs. wire w' = wire w @ Connect # evs)"
proof (cases c)
  case (CallReset seed)
  with assms reset_closed [of e N seed w _ e' w'] show ?thesis
    by (cases "reset N e seed w") (auto simp add: change_def)
next
  case CallEnter
  with assms enter_closed [of e N w _ e' w'] show ?thesis
    by (cases "enter N e w") (auto simp add: change_def)
next
  case (CallParallelReset seed)
  with assms parallel_reset_closed [of e N seed w _ e' w'] show ?thesis
    by (cases "parallel_reset N e seed w") (auto simp add: change_def)
next
  case (CallParallelStep acts)
  with assms show ?thesis
    by (auto simp add: keep_def keep_closed_snd)
qed (use assms in \<open>auto simp add: keep_def change_def exit_def close_closed keep_closed_snd\<close>)

lemma exec_all_closed:
  assumes "closed e" and "exec_all N cs e w = (e', w')"
  shows "\<exists>evs. wire w' = wire w @ evs \<and> connect_first evs"
  using assms
proof (induction cs arbitrary: e w)
  case Nil
  then show ?case by simp
next
  case (Cons c cs)
  obtain r e1 w1 where ex: "exec N c e w = (r, e1, w1)"
    by (cases "exec N c e w") auto
  with Cons.prems have rest: "exec_all N cs e1 w1 = (e', w')" by simp
  from exec_closed [OF Cons.prems(1) ex] show ?case
  proof
    assume "e1 = e \<and> w1 = w"
    with Cons.IH [of e w] Cons.prems(1) rest show ?thesis by simp
  next
    assume "\<exists>evs. wire w1 = wire w @ Connect # evs"
    then obtain evs where "wire w1 = wire w @ Connect # evs" ..
    with exec_all_grows [OF rest] obtain evs' where "wire w' = wire w @ Connect # evs'"
      using grows_after_connect by blast
    then show ?thesis by auto
  qed
qed


lemma client_close_result:
  "client_close N c w = (r, c', w') \<Longrightarrow> r = Inr () \<and> ws c' = None"
  by (auto simp add: client_close_def disconnect_def split: prod.splits option.splits)

lemma close_result:
  assumes "flag_covers_socket e" and "close N e w = (r, e', w')"
  shows "r = Inr () \<and> closed e'"
  using assms
  by (auto simp add: close_def closed_def flag_covers_socket_def
        split: if_splits prod.splits sum.splits dest: client_close_result)

lemma cache_spaces_fields:
  "cache_spaces N e ags w = (r, e', w') \<Longrightarrow>
     client e' = client e \<and> priv_connected e' = priv_connected e"
proof (induction ags arbitrary: e w)
  case Nil
  then show ?case by simp
next
  case (Cons a ags)
  then show ?case
    by (fastforce simp add: Let_def split: prod.splits sum.splits)
qed

lemma connect_and_init_flag:
  "connect_and_init N e w = (r, e', w') \<Longrightarrow> flag_covers_socket e \<Longrightarrow> flag_covers_socket e'"
  by (auto simp add: connect_and_init_def connect_def flag_covers_socket_def Let_def
        split: if_splits prod.splits sum.splits option.splits dest: cache_spaces_fields)

lemma reset_flag:
  "reset N e seed w = (r, e', w') \<Longrightarrow> flag_covers_socket e \<Longrightarrow> flag_covers_socket e'"
  by (auto simp add: reset_def split: if_splits prod.splits sum.splits
        dest: connect_and_init_flag)

lemma exec_flag:
  assumes "flag_covers_socket e" and "exec N c e w = (r, e', w')"
  shows "flag_covers_socket e'"
proof (cases c)
  case (CallReset seed)
  with assms show ?thesis
    by (cases "reset N e seed w") (auto simp add: change_def dest: reset_flag)
next
  case CallClose
  with assms close_result [of e N w] show ?thesis
    by (cases "close N e w") (auto simp add: change_def closed_def flag_covers_socket_def)
next
  case CallExit
  with assms close_result [of e N w] show ?thesis
    by (cases "close N e w") (auto simp add: change_def exit_def closed_def flag_covers_socket_def)
next
  case CallEnter
  with assms show ?thesis
    by (cases "enter N e w")
       (auto simp add: change_def enter_def split: if_splits dest: connect_and_init_flag)
next
  case (CallParallelReset seed)
  with assms show ?thesis
    by (cases "parallel_reset N e seed w")
       (auto simp add: change_def dest!: parallel_reset_after_reset dest: reset_flag)
qed (use assms in \<open>auto simp add: keep_def\<close>)

lemma blank_env_flag: "flag_covers_socket (blank_env u mode)"
  by (simp add: flag_covers_socket_def blank_env_def init_client_def)

section \<open>Closing twice\<close>

text \<open>Every adapter that the constructor returns, driven through its methods, keeps its flag over its socket.\<close>

lemma init_env_flag: "init_env N u mode auto_connect w = (Inr e, w') \<Longrightarrow> flag_covers_socket e"
  by (auto simp add: init_env_def blank_env_flag split: if_splits prod.splits sum.splits
        dest: connect_and_init_flag [OF _ blank_env_flag])

lemma exec_all_flag:
  "flag_covers_socket e \<Longrightarrow> exec_all N cs e w = (e', w') \<Longrightarrow> flag_covers_socket e'"
proof (induction cs arbitrary: e w)
  case Nil
  then show ?case by simp
next
  case (Cons c cs)
  obtain r e1 w1 where ex: "exec N c e w = (r, e1, w1)" by (cases "exec N c e w") auto
  from exec_flag [OF Cons.prems(1) ex] have "flag_covers_socket e1" .
  with Cons.IH [of e1 w1] Cons.prems(2) ex show ?case by simp
qed

text \<open>
  C8. Take an adapter as the constructor returns it, after any calls on it. \<^verbatim>\<open>close\<close>
  does not raise; a second \<^verbatim>\<open>close\<close> does not raise either and changes neither the
  adapter nor the world, so it sends nothing; and whatever calls follow the first
  \<^verbatim>\<open>close\<close>, the first thing they put on the wire, if anything, is the opening of a
  new connection: no command goes out before a fresh connect. The client's own
  \<^verbatim>\<open>close\<close> never raises, whatever the client's state, and a second one changes
  neither the client nor the world.
\<close>

theorem close_twice:
  assumes "init_env N u mode auto_connect w0 = (Inr e0, v0)"
      and "exec_all N before e0 v0 = (e, w)"
      and "close N e w = (r1, e1, w1)"
      and "close N e1 w1 = (r2, e2, w2)"
      and "exec_all N calls e1 w1 = (e3, w3)"
  shows "r1 = Inr () \<and> r2 = Inr () \<and> e2 = e1 \<and> w2 = w1
       \<and> (\<exists>evs. wire w3 = wire w1 @ evs \<and> connect_first evs)
       \<and> fst (client_close N c v) = Inr ()
       \<and> client_close N (fst (snd (client_close N c v))) (snd (snd (client_close N c v)))
           = (Inr (), snd (client_close N c v))"
proof -
  from exec_all_flag [OF init_env_flag [OF assms(1)] assms(2)] have inv: "flag_covers_socket e" .
  from close_result [OF inv assms(3)] have r1: "r1 = Inr ()" and cl: "closed e1" by auto
  from assms(4) close_closed [OF cl, of N w1] have second: "r2 = Inr () \<and> e2 = e1 \<and> w2 = w1"
    by simp
  from exec_all_closed [OF cl assms(5)]
  have after: "\<exists>evs. wire w3 = wire w1 @ evs \<and> connect_first evs" .
  obtain q c1 v1 where cc: "client_close N c v = (q, c1, v1)"
    by (cases "client_close N c v") auto
  from client_close_result [OF cc] have q: "q = Inr ()" and off: "ws c1 = None" by auto
  from off have "client_close N c1 v1 = (Inr (), c1, v1)"
    by (simp add: client_close_def send_disconnected disconnect_disconnected)
  with cc q r1 second after show ?thesis by simp
qed

theorem close_twice_witness:
  "init_env table_server ''ws://localhost:9999'' None True (fresh game)
       = (Inr live_env, \<lparr>server = game, wire = handshake\<rparr>)
   \<and> exec_all table_server [CallReset (Some 42)] live_env \<lparr>server = game, wire = handshake\<rparr>
       = (live_env, \<lparr>server = game, wire = handshake @ [Send (Reset (Some 42))]\<rparr>)
   \<and> close table_server live_env \<lparr>server = game, wire = handshake @ [Send (Reset (Some 42))]\<rparr>
       = (Inr (), shut_env,
          \<lparr>server = game, wire = handshake @ [Send (Reset (Some 42)), Send Close, Hangup]\<rparr>)
   \<and> close table_server shut_env
         \<lparr>server = game, wire = handshake @ [Send (Reset (Some 42)), Send Close, Hangup]\<rparr>
       = (Inr (), shut_env,
          \<lparr>server = game, wire = handshake @ [Send (Reset (Some 42)), Send Close, Hangup]\<rparr>)
   \<and> exec_all table_server [CallStep (Some 1), CallAgents, CallReset None] shut_env
         \<lparr>server = game, wire = handshake @ [Send (Reset (Some 42)), Send Close, Hangup]\<rparr>
       = (live_env,
          \<lparr>server = game,
            wire = handshake @ [Send (Reset (Some 42)), Send Close, Hangup]
                     @ handshake @ [Send (Reset None)]\<rparr>)
   \<and> connect_first (handshake @ [Send (Reset None)])"
proof -
  have h1: "init_env table_server ''ws://localhost:9999'' None True (fresh game)
       = (Inr live_env, \<lparr>server = game, wire = handshake\<rparr>)"
    by (simp add: init_env_def blank_env_def init_client_def connect_and_init_def connect_def
          client_defs send_get_def send_def live_env_def handshake_def game_def table_server_def
          table_reply_def ack_def Let_def fresh_def convert_space_def reshape_def)
  have h2: "exec_all table_server [CallReset (Some 42)] live_env \<lparr>server = game, wire = handshake\<rparr>
       = (live_env, \<lparr>server = game, wire = handshake @ [Send (Reset (Some 42))]\<rparr>)"
    by (simp add: reset_def client_reset_def send_unit_def send_def live_env_def
          table_server_def table_reply_def ack_def Let_def change_def raised_def)
  have h3: "close table_server live_env \<lparr>server = game, wire = handshake @ [Send (Reset (Some 42))]\<rparr>
       = (Inr (), shut_env,
          \<lparr>server = game, wire = handshake @ [Send (Reset (Some 42)), Send Close, Hangup]\<rparr>)"
    by (simp add: close_def client_close_def send_def disconnect_def live_env_def shut_env_def
          table_server_def table_reply_def ack_def Let_def)
  have h4: "close table_server shut_env
         \<lparr>server = game, wire = handshake @ [Send (Reset (Some 42)), Send Close, Hangup]\<rparr>
       = (Inr (), shut_env,
          \<lparr>server = game, wire = handshake @ [Send (Reset (Some 42)), Send Close, Hangup]\<rparr>)"
    by (simp add: close_def shut_env_def)
  have h5: "exec_all table_server [CallStep (Some 1), CallAgents, CallReset None] shut_env
         \<lparr>server = game, wire = handshake @ [Send (Reset (Some 42)), Send Close, Hangup]\<rparr>
       = (live_env,
          \<lparr>server = game,
            wire = handshake @ [Send (Reset (Some 42)), Send Close, Hangup]
                     @ handshake @ [Send (Reset None)]\<rparr>)"
    by (simp add: step_def agents_def reset_def connect_and_init_def connect_def client_defs
          send_unit_def send_get_def send_def disconnect_def live_env_def shut_env_def
          handshake_def game_def table_server_def table_reply_def ack_def Let_def keep_def
          change_def raised_def not_connected_def convert_space_def reshape_def)
  from close_twice [OF h1 h2 h3 h4 h5] show ?thesis
    using h1 h2 h3 h4 h5 by (simp add: handshake_def)
qed

section \<open>Server errors\<close>



lemma reset_connected_env: "priv_connected e \<Longrightarrow> reset N e seed w = (r, e', w') \<Longrightarrow> e' = e"
  by (auto simp add: reset_def split: prod.splits sum.splits if_splits)






section \<open>Resets within one connection\<close>


lemma reset_connected_wire:
  assumes "priv_connected e" and "reset N e seed w = (r, e', w')"
  shows "\<exists>evs. wire w' = wire w @ evs \<and> list_all reset_traffic evs"
  using assms
  by (auto simp add: reset_def client_reset_def render_def client_render_def send_unit_def send_def
        Let_def split: prod.splits sum.splits if_splits option.splits recv.splits)

text \<open>
  C5. On a connected adapter, after any sequence of \<^verbatim>\<open>reset\<close> calls (whether or not
  some of them raise) the adapter is what it was, so \<^verbatim>\<open>possible_agents\<close> and both
  space caches are the same after every reset; and all that the resets have sent is
  \<^verbatim>\<open>reset\<close> and \<^verbatim>\<open>render\<close> commands: no query for the possible agents or for a
  space.
\<close>


theorem resets_keep_agents_and_caches:
  assumes "priv_connected e" and "exec_all N (map CallReset seeds) e w = (e', w')"
  shows "e' = e \<and> possible_agents e' = possible_agents e
       \<and> priv_observation_spaces e' = priv_observation_spaces e
       \<and> priv_action_spaces e' = priv_action_spaces e
       \<and> (\<exists>evs. wire w' = wire w @ evs \<and> list_all reset_traffic evs)"
  using assms
proof (induction seeds arbitrary: w)
  case Nil
  then show ?case by simp
next
  case (Cons seed seeds)
  obtain r e1 w1 where rs: "reset N e seed w = (r, e1, w1)"
    by (cases "reset N e seed w") auto
  from reset_connected_env [OF Cons.prems(1) rs] have e1: "e1 = e" .
  from reset_connected_wire [OF Cons.prems(1) rs] obtain evs1 where
    w1: "wire w1 = wire w @ evs1" "list_all reset_traffic evs1" by blast
  from Cons.prems(2) rs e1 have "exec_all N (map CallReset seeds) e w1 = (e', w')"
    by (simp add: change_def)
  from Cons.IH [OF Cons.prems(1) this] obtain evs2 where
    "e' = e" "wire w' = wire w1 @ evs2" "list_all reset_traffic evs2" by blast
  with w1 show ?case by auto
qed

theorem resets_keep_agents_and_caches_witness:
  "priv_connected live_env
   \<and> exec_all table_server (map CallReset [Some 42, None]) live_env (fresh game)
       = (live_env, \<lparr>server = game, wire = [Send (Reset (Some 42)), Send (Reset None)]\<rparr>)
   \<and> possible_agents live_env = [''a'', ''b'']
   \<and> (\<exists>evs. [Send (Reset (Some 42)), Send (Reset None)] = wire (fresh game) @ evs
              \<and> list_all reset_traffic evs)"
proof -
  have h1: "priv_connected live_env" by (simp add: live_env_def)
  have h2: "exec_all table_server (map CallReset [Some 42, None]) live_env (fresh game)
       = (live_env, \<lparr>server = game, wire = [Send (Reset (Some 42)), Send (Reset None)]\<rparr>)"
    by (simp add: reset_def client_reset_def send_unit_def send_def live_env_def
          table_server_def table_reply_def fresh_def ack_def Let_def change_def raised_def)
  from resets_keep_agents_and_caches [OF h1 h2] show ?thesis
    using h1 h2 by (simp add: possible_agents_def live_env_def)
qed


section \<open>Defaults of the last step result\<close>


text \<open>
  A field that is present but is not of its kind is another matter: \<^verbatim>\<open>float(None)\<close>
  raises, so a reply with \<^verbatim>\<open>"reward": null\<close> makes \<^verbatim>\<open>last\<close> raise \<^verbatim>\<open>TypeError\<close>
  after its round trips have succeeded.
\<close>

lemma last_raises_on_null_reward:
  "last_result scripted live_env False
      (fresh [Reply (ack\<lparr>r_reward := Some JNull\<rparr>), Reply (ack\<lparr>r_agent := Some ''a''\<rparr>)])
     = (Inl (TypeError ''float() argument must be a string or a real number''),
        \<lparr>server = [], wire = [Send Last, Send AgentSelection]\<rparr>)"
  by (simp add: last_result_def client_last_def agent_selection_def client_agent_selection_def
        send_get_def send_def scripted_def fresh_def live_env_def ack_def Let_def py_float_def)



section \<open>Space descriptors there and back\<close>

text \<open>
  C4, as the claim has it, fails for a bounded vector whose descriptor leaves out
  \<^verbatim>\<open>low\<close> and \<^verbatim>\<open>high\<close>: \<^verbatim>\<open>convert_space\<close> fills the bounds with infinities
  and \<^verbatim>\<open>space_to_dict\<close> always writes both keys, so the descriptor that comes back has
  two fields that the original did not have.
\<close>

theorem round_trip_adds_bounds:
  "round_trip scripted \<lparr>sd_n = None, sd_shape = Some [2], sd_low = None, sd_high = None\<rparr>
     = Inr \<lparr>sd_n = None, sd_shape = Some [2], sd_low = Some [NegInf, NegInf],
             sd_high = Some [PosInf, PosInf]\<rparr>
   \<and> round_trip scripted \<lparr>sd_n = None, sd_shape = Some [2], sd_low = None, sd_high = None\<rparr>
     \<noteq> Inr \<lparr>sd_n = None, sd_shape = Some [2], sd_low = None, sd_high = None\<rparr>"
  by (simp add: round_trip_def convert_space_def space_to_dict_def reshape_def numeral_2_eq_2)

text \<open>
  C4, amended. A discrete descriptor \<^verbatim>\<open>{n}\<close> with \<open>n \<ge> 1\<close> comes back as
  \<^verbatim>\<open>{n}\<close>. A bounded-vector descriptor whose bounds, where present, have as many
  elements as the shape asks for comes back with the same shape and with both bounds
  present: a bound that was given is its elementwise conversion to \<^verbatim>\<open>float32\<close>, one
  that was left out is filled with \<open>-\<infinity>\<close> (low) or \<open>+\<infinity>\<close> (high). So the descriptor
  that comes back is equal to the original when both bounds were given and the
  conversion to \<^verbatim>\<open>float32\<close> changes none of their elements.
\<close>

theorem round_trip_descriptor:
  "(1 \<le> n \<and> sd_n d = Some n \<longrightarrow>
      round_trip N d = Inr \<lparr>sd_n = Some n, sd_shape = None, sd_low = None, sd_high = None\<rparr>)
   \<and> (sd_n b = None \<and> sd_shape b = Some shape
        \<and> (\<forall>l. sd_low b = Some l \<longrightarrow> length l = prod_list shape)
        \<and> (\<forall>h. sd_high b = Some h \<longrightarrow> length h = prod_list shape) \<longrightarrow>
      round_trip N b =
        Inr \<lparr>sd_n = None, sd_shape = Some shape,
             sd_low = Some (case sd_low b of
                              None \<Rightarrow> replicate (prod_list shape) NegInf
                            | Some l \<Rightarrow> map (to_float32 N) l),
             sd_high = Some (case sd_high b of
                               None \<Rightarrow> replicate (prod_list shape) PosInf
                             | Some h \<Rightarrow> map (to_float32 N) h)\<rparr>)
   \<and> (length low = prod_list dims \<and> length high = prod_list dims
        \<and> (\<forall>x \<in> set low \<union> set high. to_float32 N x = x) \<longrightarrow>
      round_trip N \<lparr>sd_n = None, sd_shape = Some dims, sd_low = Some low, sd_high = Some high\<rparr>
        = Inr \<lparr>sd_n = None, sd_shape = Some dims, sd_low = Some low, sd_high = Some high\<rparr>)"
proof (intro conjI impI)
  assume "1 \<le> n \<and> sd_n d = Some n"
  then show "round_trip N d = Inr \<lparr>sd_n = Some n, sd_shape = None, sd_low = None, sd_high = None\<rparr>"
    by (simp add: round_trip_def convert_space_def space_to_dict_def)
next
  assume "sd_n b = None \<and> sd_shape b = Some shape
        \<and> (\<forall>l. sd_low b = Some l \<longrightarrow> length l = prod_list shape)
        \<and> (\<forall>h. sd_high b = Some h \<longrightarrow> length h = prod_list shape)"
  then show "round_trip N b =
        Inr \<lparr>sd_n = None, sd_shape = Some shape,
             sd_low = Some (case sd_low b of
                              None \<Rightarrow> replicate (prod_list shape) NegInf
                            | Some l \<Rightarrow> map (to_float32 N) l),
             sd_high = Some (case sd_high b of
                               None \<Rightarrow> replicate (prod_list shape) PosInf
                             | Some h \<Rightarrow> map (to_float32 N) h)\<rparr>"
    by (cases shape)
       (auto simp add: round_trip_def convert_space_def space_to_dict_def reshape_def Let_def
          split: option.splits)
next
  assume a: "length low = prod_list dims \<and> length high = prod_list dims
        \<and> (\<forall>x \<in> set low \<union> set high. to_float32 N x = x)"
  then have "map (to_float32 N) low = low" and "map (to_float32 N) high = high"
    by (auto intro: map_idI)
  with a show "round_trip N \<lparr>sd_n = None, sd_shape = Some dims, sd_low = Some low, sd_high = Some high\<rparr>
        = Inr \<lparr>sd_n = None, sd_shape = Some dims, sd_low = Some low, sd_high = Some high\<rparr>"
    by (simp add: round_trip_def convert_space_def space_to_dict_def reshape_def Let_def)
qed

theorem round_trip_descriptor_witness:
  "(1::int) \<le> 5
   \<and> round_trip scripted \<lparr>sd_n = Some 5, sd_shape = None, sd_low = None, sd_high = None\<rparr>
       = Inr \<lparr>sd_n = Some 5, sd_shape = None, sd_low = None, sd_high = None\<rparr>
   \<and> length [Fin 0, Fin 0, NegInf, Fin 0, Fin 0, Fin 0] = prod_list [2, 3::nat]
   \<and> round_trip scripted
        \<lparr>sd_n = None, sd_shape = Some [2, 3],
         sd_low = Some [Fin 0, Fin 0, NegInf, Fin 0, Fin 0, Fin 0], sd_high = None\<rparr>
       = Inr \<lparr>sd_n = None, sd_shape = Some [2, 3],
               sd_low = Some [Fin 0, Fin 0, NegInf, Fin 0, Fin 0, Fin 0],
               sd_high = Some [PosInf, PosInf, PosInf, PosInf, PosInf, PosInf]\<rparr>
   \<and> length [Fin 0, Fin (-1)] = prod_list [2::nat] \<and> length [Fin 1, PosInf] = prod_list [2::nat]
   \<and> to_float32 scripted (Fin 0) = Fin 0 \<and> to_float32 scripted (Fin (-1)) = Fin (-1)
   \<and> to_float32 scripted (Fin 1) = Fin 1 \<and> to_float32 scripted PosInf = PosInf
   \<and> round_trip scripted
        \<lparr>sd_n = None, sd_shape = Some [2], sd_low = Some [Fin 0, Fin (-1)],
         sd_high = Some [Fin 1, PosInf]\<rparr>
       = Inr \<lparr>sd_n = None, sd_shape = Some [2], sd_low = Some [Fin 0, Fin (-1)],
               sd_high = Some [Fin 1, PosInf]\<rparr>"
proof -
  have f: "\<forall>x \<in> set [Fin 0, Fin (-1)] \<union> set [Fin 1, PosInf]. to_float32 scripted x = x"
    by (simp add: scripted_def)
  show ?thesis
    using f round_trip_descriptor
      [where N = scripted and n = 5
         and d = "\<lparr>sd_n = Some 5, sd_shape = None, sd_low = None, sd_high = None\<rparr>"
         and b = "\<lparr>sd_n = None, sd_shape = Some [2, 3],
                   sd_low = Some [Fin 0, Fin 0, NegInf, Fin 0, Fin 0, Fin 0], sd_high = None\<rparr>"
         and shape = "[2, 3]" and dims = "[2]"
         and low = "[Fin 0, Fin (-1)]" and high = "[Fin 1, PosInf]"]
    by (simp add: scripted_def eval_nat_numeral)
qed

section \<open>Action masks\<close>

text \<open>
  C9, as the claim has it, fails for a reply whose mask is the empty list: the test in
  \<^verbatim>\<open>action_mask\<close> is Python truthiness, so the client returns \<^verbatim>\<open>None\<close> although
  the reply carries a mask field.
\<close>

theorem empty_mask_gives_none:
  "r_mask (ack\<lparr>r_mask := Some []\<rparr>) \<noteq> None \<and>
   client_action_mask scripted (client live_env) ''a'' (fresh [Reply (ack\<lparr>r_mask := Some []\<rparr>)])
     = (Inr None, \<lparr>server = [], wire = [Send (ActionMask ''a'')]\<rparr>)"
  by (simp add: client_action_mask_def send_def scripted_def live_env_def fresh_def ack_def)

text \<open>
  C9, amended. For every \<^verbatim>\<open>action_mask\<close> reply (one with no error field), the client
  returns \<^verbatim>\<open>None\<close> exactly when the reply carries no mask field or carries an empty
  mask; whenever the reply carries a mask with at least one entry, the client returns
  that boolean vector, entry for entry.
\<close>

theorem action_mask_none_iff:
  assumes "send N c (ActionMask agent) w = (Inr r, w1)"
  shows "(fst (client_action_mask N c agent w) = Inr None \<longleftrightarrow> r_mask r = None \<or> r_mask r = Some [])
       \<and> (\<forall>bs. r_mask r = Some bs \<and> bs \<noteq> [] \<longrightarrow>
            client_action_mask N c agent w = (Inr (Some bs), w1))"
  using assms by (auto simp add: client_action_mask_def split: option.splits)

theorem action_mask_none_iff_witness:
  "send scripted (client live_env) (ActionMask ''a'')
      (fresh [Reply (ack\<lparr>r_mask := Some [True, False, True]\<rparr>)])
     = (Inr (ack\<lparr>r_mask := Some [True, False, True]\<rparr>),
        \<lparr>server = [], wire = [Send (ActionMask ''a'')]\<rparr>)
   \<and> client_action_mask scripted (client live_env) ''a''
        (fresh [Reply (ack\<lparr>r_mask := Some [True, False, True]\<rparr>)])
     = (Inr (Some [True, False, True]), \<lparr>server = [], wire = [Send (ActionMask ''a'')]\<rparr>)"
proof -
  have h: "send scripted (client live_env) (ActionMask ''a'')
      (fresh [Reply (ack\<lparr>r_mask := Some [True, False, True]\<rparr>)])
     = (Inr (ack\<lparr>r_mask := Some [True, False, True]\<rparr>),
        \<lparr>server = [], wire = [Send (ActionMask ''a'')]\<rparr>)"
    by (simp add: send_def scripted_def live_env_def fresh_def ack_def)
  show ?thesis using h action_mask_none_iff [OF h] by simp
qed

section \<open>One round of the parallel adapter\<close>

text \<open>
  C1. A call of the parallel adapter's \<^verbatim>\<open>step\<close> is to issue one sequential step for
  every agent of the active set read at the start of the call; the method's docstring
  says the same, \<^emph>\<open>execute actions for all agents simultaneously\<close>. The code does not
  do it. Its loop goes once through the active list in list order, and steps an agent
  only if the server names that agent as selected when its place in the list is reached;
  an agent whose turn has not come by then is passed over and never returned to.

  Here the active agents are \<open>a\<close> and \<open>b\<close>, the map holds an action for each (\<open>0\<close> for
  \<open>a\<close>, \<open>1\<close> for \<open>b\<close>), and the server gives the first turn to \<open>b\<close>. The loop reaches
  \<open>a\<close> first, finds \<open>b\<close> selected and passes \<open>a\<close> over; it then reaches \<open>b\<close>, finds \<open>b\<close>
  selected and steps it. The call returns normally, having sent a single \<^verbatim>\<open>step\<close>
  command, \<open>b\<close>'s, for two active agents: the action supplied for \<open>a\<close> is dropped, and
  it is \<open>a\<close>'s turn on the server when the call returns.
\<close>

theorem parallel_step_skips_agent:
  "agents table_server live_env (fresh late)
     = (Inr [''a'', ''b''], \<lparr>server = late, wire = [Send Agents]\<rparr>)
   \<and> parallel_step table_server live_env [''a'' \<mapsto> 0, ''b'' \<mapsto> 1] (fresh late)
       = (Inr \<lparr>observations = [''a'' \<mapsto> [Fin 0], ''b'' \<mapsto> [Fin 0]],
               rewards_map = [(''a'', 0), (''b'', 0)],
               terminations_map = [(''a'', False), (''b'', False)],
               truncations_map = [(''a'', False), (''b'', False)],
               infos_map = [(''a'', []), (''b'', [])]\<rparr>,
          \<lparr>server = late\<lparr>turns := [''a'']\<rparr>,
            wire = [Send Agents, Send AgentSelection, Send AgentSelection, Send (Step 1),
                    Send Agents, Send (Observe ''a''), Send (Observe ''b''), Send Rewards,
                    Send Terminations, Send Truncations, Send Infos]\<rparr>)
   \<and> step_actions (wire (snd (parallel_step table_server live_env [''a'' \<mapsto> 0, ''b'' \<mapsto> 1]
                                 (fresh late)))) = [1]
   \<and> length (step_actions (wire (snd (parallel_step table_server live_env
                                          [''a'' \<mapsto> 0, ''b'' \<mapsto> 1] (fresh late)))))
       < length [''a'', ''b'']"
  by (simp add: parallel_step_def agents_def step_def agent_selection_def observe_def rewards_def
     terminations_def truncations_def infos_def client_defs send_get_def send_unit_def send_def
     table_server_def table_reply_def ack_def Let_def live_env_def fresh_def late_def)

section \<open>Iterating over the agents\<close>








end
